theory Spec2Isabelle
  imports Complex_Main "HOL-Library.AList" "HOL-Library.Sublist"
begin

section \<open>Data model (job.py, exceptions.py)\<close>

text \<open>
  \<^verbatim>\<open>JobState\<close> (job.py, lines 16-26) is an \<^verbatim>\<open>Enum\<close> with nine members and nothing else:
  it declares no method and no property. \<^verbatim>\<open>value\<close> is the member's string.
\<close>

datatype JobState =
  SUBMITTED | VALIDATING | QUEUED | INITIALIZING | RUNNING | COMPLETING
  | COMPLETED | FAILED | CANCELLED

fun JobState_value :: "JobState \<Rightarrow> string" where
  "JobState_value SUBMITTED = ''submitted''"
| "JobState_value VALIDATING = ''validating''"
| "JobState_value QUEUED = ''queued''"
| "JobState_value INITIALIZING = ''initializing''"
| "JobState_value RUNNING = ''running''"
| "JobState_value COMPLETING = ''completing''"
| "JobState_value COMPLETED = ''completed''"
| "JobState_value FAILED = ''failed''"
| "JobState_value CANCELLED = ''cancelled''"

text \<open>
  Exceptions are values. The classes of exceptions.py that the modelled code raises, and
  the built-in exceptions it can meet. \<^verbatim>\<open>Exc c m\<close> is an instance of class \<open>c\<close> built
  with message \<open>m\<close>.
\<close>

datatype exc_class =
  QETLError | ValidationError | JobExecutionError | JobNotFoundError
  | AttributeError | KeyError | TypeError | FileNotFoundError | YAMLError | OtherException

datatype exc = Exc exc_class string

fun exc_class_of :: "exc \<Rightarrow> exc_class" where
  "exc_class_of (Exc c m) = c"

fun exc_message :: "exc \<Rightarrow> string" where
  "exc_message (Exc c m) = m"

text \<open>\<^verbatim>\<open>type(e).__name__\<close>.\<close>

fun class_name :: "exc_class \<Rightarrow> string" where
  "class_name QETLError = ''QETLError''"
| "class_name ValidationError = ''ValidationError''"
| "class_name JobExecutionError = ''JobExecutionError''"
| "class_name JobNotFoundError = ''JobNotFoundError''"
| "class_name AttributeError = ''AttributeError''"
| "class_name KeyError = ''KeyError''"
| "class_name TypeError = ''TypeError''"
| "class_name FileNotFoundError = ''FileNotFoundError''"
| "class_name YAMLError = ''YAMLError''"
| "class_name OtherException = ''Exception''"

text \<open>
  \<^verbatim>\<open>QETLError.__str__\<close> (exceptions.py, lines 17-20) prefixes the error code when the
  class sets one. The base class is always built without a code in the modelled files;
  \<^verbatim>\<open>ValidationError\<close>, \<^verbatim>\<open>JobExecutionError\<close> and \<^verbatim>\<open>JobNotFoundError\<close> fix theirs in
  \<^verbatim>\<open>__init__\<close>. A built-in exception prints its message.
\<close>

fun error_code :: "exc_class \<Rightarrow> string option" where
  "error_code ValidationError = Some ''VALIDATION_ERROR''"
| "error_code JobExecutionError = Some ''JOB_EXECUTION_ERROR''"
| "error_code JobNotFoundError = Some ''JOB_NOT_FOUND''"
| "error_code c = None"

fun str_exc :: "exc \<Rightarrow> string" where
  "str_exc (Exc c m) =
     (case error_code c of Some code \<Rightarrow> ''['' @ code @ ''] '' @ m | None \<Rightarrow> m)"

text \<open>A name between single quotes, as Python prints it inside a message.\<close>

definition quoted :: "string \<Rightarrow> string" where
  "quoted s = CHR 0x27 # s @ [CHR 0x27]"

text \<open>
  \<^verbatim>\<open>JobStatus\<close> (job.py, lines 29-63). Timestamps are natural numbers (a clock reading);
  \<open>progress\<close> is \<^verbatim>\<open>Optional[float]\<close> as the runner passes it: \<open>None\<close> is Python's
  \<^verbatim>\<open>None\<close>. The only progress values the code writes are the constants 0, 10, 20, 30, 40,
  90 and 100.
\<close>

record JobStatus =
  s_job_id :: string
  state :: JobState
  progress :: "real option"
  message :: string
  created_at :: nat
  updated_at :: nat

definition is_terminal :: "JobStatus \<Rightarrow> bool" where
  "is_terminal st \<longleftrightarrow> state st \<in> {COMPLETED, FAILED, CANCELLED}"

definition is_running :: "JobStatus \<Rightarrow> bool" where
  "is_running st \<longleftrightarrow> state st \<in> {RUNNING, INITIALIZING, COMPLETING}"

definition is_successful :: "JobStatus \<Rightarrow> bool" where
  "is_successful st \<longleftrightarrow> state st = COMPLETED"

text \<open>\<^verbatim>\<open>JobResults\<close> (job.py, lines 81-98).\<close>

record JobResults =
  r_job_id :: string
  outputs :: "(string \<times> string) list"
  execution_time :: nat
  logs :: "string list"
  metrics :: "(string \<times> string) list"

section \<open>The in-memory job table (local_runner.py)\<close>

text \<open>
  One entry of \<^verbatim>\<open>self.jobs\<close>: the dict built by \<^verbatim>\<open>submit_job\<close> (lines 103-112). The keys
  \<^verbatim>\<open>"results"\<close> and \<^verbatim>\<open>"error"\<close> are absent until \<^verbatim>\<open>_execute_job\<close> adds them: \<open>None\<close>
  is the absent key. \<^verbatim>\<open>"status"\<close> holds a \<^verbatim>\<open>JobState\<close> member (lines 106, 293, 342), not
  a \<^verbatim>\<open>JobStatus\<close>.
\<close>

record error_info =
  e_type :: string
  e_message :: string
  e_timestamp :: nat

record job_data =
  d_job_id :: string
  d_yaml_path :: string
  d_status :: JobState
  d_created_at :: nat
  d_updated_at :: nat
  d_progress :: "real option"
  d_message :: string
  d_kwargs :: "(string \<times> string) list"
  d_results :: "JobResults option"
  d_error :: "error_info option"

text \<open>
  \<^verbatim>\<open>self.jobs\<close> is a Python dict: it iterates in insertion order, and assigning to a key
  that is present keeps the key's place. An association list with \<^const>\<open>AList.update\<close>
  behaves so. \<open>threads\<close> lists the job ids for which \<^verbatim>\<open>submit_job\<close> has started a
  background thread running \<^verbatim>\<open>_execute_job\<close>.
\<close>

record LocalRunner =
  jobs :: "(string \<times> job_data) list"
  timeout :: nat
  threads :: "string list"

text \<open>
  \<^verbatim>\<open>_update_job_status\<close> (lines 282-297): under the lock, when the id is present, the four
  keys are overwritten, whatever the record holds; an unknown id is skipped silently.
\<close>

definition update_job_status ::
  "nat \<Rightarrow> string \<Rightarrow> JobState \<Rightarrow> real option \<Rightarrow> string \<Rightarrow> LocalRunner \<Rightarrow> LocalRunner" where
  "update_job_status now job_id st prog msg r =
     (case map_of (jobs r) job_id of
        None \<Rightarrow> r
      | Some jd \<Rightarrow>
          r\<lparr>jobs := AList.update job_id
                (jd\<lparr>d_status := st, d_progress := prog, d_message := msg, d_updated_at := now\<rparr>)
                (jobs r)\<rparr>)"

text \<open>
  The attribute read \<^verbatim>\<open>job_data["status"].is_terminal\<close> of \<^verbatim>\<open>cancel_job\<close> (line 337) and
  \<^verbatim>\<open>get_instance_info\<close> (line 471). Its receiver is a \<^verbatim>\<open>JobState\<close> member; \<^verbatim>\<open>is_terminal\<close>
  is a property of \<^verbatim>\<open>JobStatus\<close> (job.py, lines 50-53) and \<^verbatim>\<open>JobState\<close> has no such
  attribute, so the read raises \<^verbatim>\<open>AttributeError\<close> for every member.
\<close>

definition JobState_is_terminal :: "JobState \<Rightarrow> exc + bool" where
  "JobState_is_terminal s =
     Inl (Exc AttributeError
            (quoted ''JobState'' @ '' object has no attribute '' @ quoted ''is_terminal''))"

text \<open>
  \<^verbatim>\<open>cancel_job\<close> (lines 329-347). The result is what the call returns or raises, with the
  runner after the call.
\<close>

definition cancel_job :: "nat \<Rightarrow> string \<Rightarrow> LocalRunner \<Rightarrow> (exc + bool) \<times> LocalRunner" where
  "cancel_job now job_id r =
     (case map_of (jobs r) job_id of
        None \<Rightarrow> (Inr False, r)
      | Some jd \<Rightarrow>
          (case JobState_is_terminal (d_status jd) of
             Inl e \<Rightarrow> (Inl e, r)
           | Inr True \<Rightarrow> (Inr False, r)
           | Inr False \<Rightarrow>
               (Inr True,
                r\<lparr>jobs := AList.update job_id
                      (jd\<lparr>d_status := CANCELLED, d_message := ''Job cancelled by user'',
                          d_updated_at := now\<rparr>)
                      (jobs r)\<rparr>)))"

text \<open>
  \<^verbatim>\<open>get_job_status\<close> (lines 299-314). \<^verbatim>\<open>job_data.get("progress", 0.0)\<close> returns what the
  key holds, also when that is \<^verbatim>\<open>None\<close>: the key is always present.
\<close>

definition get_job_status :: "string \<Rightarrow> LocalRunner \<Rightarrow> exc + JobStatus" where
  "get_job_status job_id r =
     (case map_of (jobs r) job_id of
        None \<Rightarrow> Inl (Exc QETLError (''Job not found: '' @ job_id))
      | Some jd \<Rightarrow>
          Inr \<lparr>s_job_id = job_id, state = d_status jd, progress = d_progress jd,
               message = d_message jd, created_at = d_created_at jd,
               updated_at = d_updated_at jd\<rparr>)"

text \<open>\<^verbatim>\<open>get_job_results\<close> (lines 316-327).\<close>

definition get_job_results :: "string \<Rightarrow> LocalRunner \<Rightarrow> exc + JobResults" where
  "get_job_results job_id r =
     (case map_of (jobs r) job_id of
        None \<Rightarrow> Inl (Exc QETLError (''Job not found: '' @ job_id))
      | Some jd \<Rightarrow>
          (case d_results jd of
             None \<Rightarrow> Inl (Exc QETLError (''Results not available for job '' @ job_id))
           | Some res \<Rightarrow> Inr res))"

text \<open>\<^verbatim>\<open>get_job_logs\<close> (lines 384-396); \<^verbatim>\<open>follow\<close> is ignored by the source.\<close>

definition get_job_logs :: "string \<Rightarrow> LocalRunner \<Rightarrow> exc + string list" where
  "get_job_logs job_id r =
     (case map_of (jobs r) job_id of
        None \<Rightarrow> Inl (Exc QETLError (''Job not found: '' @ job_id))
      | Some jd \<Rightarrow>
          (case d_results jd of
             Some res \<Rightarrow> Inr (logs res)
           | None \<Rightarrow> Inr [d_message jd]))"

section \<open>The job handle (job.py, class Job)\<close>

text \<open>
  A callback is known by its name. Calling it appends the call to \<open>calls\<close>; what it
  raises is swallowed by the source (\<^verbatim>\<open>except Exception: pass\<close>), so a call has no other
  effect in the model. \<open>calls\<close> and \<open>slept\<close> (the number of \<^verbatim>\<open>time.sleep(1)\<close> calls made
  so far through this handle) are observation fields; the other fields are the attributes
  set by \<^verbatim>\<open>Job.__init__\<close> (lines 140-151).
\<close>

datatype cb_arg = StatusArg JobStatus | ResultsArg "JobResults option"

record Job =
  job_id :: string
  j_status :: "JobStatus option"
  j_results :: "JobResults option"
  j_completion_callbacks :: "string list"
  j_status_callbacks :: "string list"
  calls :: "(string \<times> cb_arg) list"
  slept :: nat

definition new_Job :: "string \<Rightarrow> JobStatus option \<Rightarrow> Job" where
  "new_Job jid initial_status =
     \<lparr>job_id = jid, j_status = initial_status, j_results = None,
      j_completion_callbacks = [], j_status_callbacks = [], calls = [], slept = 0\<rparr>"

text \<open>
  \<^verbatim>\<open>list_jobs\<close> (lines 349-377): the loop over \<^verbatim>\<open>self.jobs.items()\<close>, with the list built
  so far. A filter that is \<^verbatim>\<open>None\<close> or empty is falsy and skips nothing. The length test
  comes after the append.
\<close>

definition job_of_item :: "string \<times> job_data \<Rightarrow> Job" where
  "job_of_item item =
     new_Job (fst item)
       (Some \<lparr>s_job_id = fst item, state = d_status (snd item),
              progress = d_progress (snd item), message = d_message (snd item),
              created_at = d_created_at (snd item), updated_at = d_updated_at (snd item)\<rparr>)"

definition skipped :: "string option \<Rightarrow> string \<times> job_data \<Rightarrow> bool" where
  "skipped status item =
     (case status of
        None \<Rightarrow> False
      | Some s \<Rightarrow> s \<noteq> [] \<and> JobState_value (d_status (snd item)) \<noteq> s)"

fun list_jobs_loop ::
  "string option \<Rightarrow> int \<Rightarrow> (string \<times> job_data) list \<Rightarrow> Job list \<Rightarrow> Job list" where
  "list_jobs_loop status limit [] acc = acc"
| "list_jobs_loop status limit (item # rest) acc =
     (if skipped status item then list_jobs_loop status limit rest acc
      else if int (length (acc @ [job_of_item item])) \<ge> limit then acc @ [job_of_item item]
      else list_jobs_loop status limit rest (acc @ [job_of_item item]))"

definition list_jobs :: "string option \<Rightarrow> int \<Rightarrow> LocalRunner \<Rightarrow> Job list" where
  "list_jobs status limit r = list_jobs_loop status limit (jobs r) []"

section \<open>Validation and submission (local_runner.py, client.py)\<close>

text \<open>
  What \<^verbatim>\<open>open(yaml_path)\<close> followed by \<^verbatim>\<open>yaml.safe_load\<close> gives. Of a loaded document
  only what the membership test \<^verbatim>\<open>field not in config\<close> reads is kept: the keys of a
  mapping, the string items of a sequence, the text of a string scalar.
\<close>

datatype yaml_doc =
  YNull | YMapping "string list" | YSequence "string list" | YString string | YNumber

datatype file_read = NoSuchFile | Unreadable string | Malformed string | Loaded yaml_doc

fun field_in :: "string \<Rightarrow> yaml_doc \<Rightarrow> exc + bool" where
  "field_in f YNull = Inl (Exc TypeError (''argument of type '' @ quoted ''NoneType'' @ '' is not iterable''))"
| "field_in f (YMapping keys) = Inr (f \<in> set keys)"
| "field_in f (YSequence items) = Inr (f \<in> set items)"
| "field_in f (YString s) = Inr (sublist f s)"
| "field_in f YNumber = Inl (Exc TypeError (''argument of type '' @ quoted ''int'' @ '' is not iterable''))"

fun check_fields :: "string list \<Rightarrow> yaml_doc \<Rightarrow> exc + string list" where
  "check_fields [] config = Inr []"
| "check_fields (f # fs) config =
     (case field_in f config of
        Inl e \<Rightarrow> Inl e
      | Inr present \<Rightarrow>
          (case check_fields fs config of
             Inl e \<Rightarrow> Inl e
           | Inr errors \<Rightarrow>
               Inr (if present then errors else (''Missing required field: '' @ f) # errors)))"

definition required_fields :: "string list" where
  "required_fields = [''pipeline_name'', ''input_sources'', ''transformations'']"

text \<open>
  \<^verbatim>\<open>validate_yaml\<close> (lines 437-463). Only \<^verbatim>\<open>yaml.YAMLError\<close> and \<^verbatim>\<open>FileNotFoundError\<close>
  are translated; any other exception leaves the function as it is.
\<close>

definition validate_yaml :: "(string \<Rightarrow> file_read) \<Rightarrow> string \<Rightarrow> exc + yaml_doc" where
  "validate_yaml fs yaml_path =
     (case fs yaml_path of
        NoSuchFile \<Rightarrow> Inl (Exc ValidationError (''YAML file not found: '' @ yaml_path))
      | Unreadable m \<Rightarrow> Inl (Exc OtherException m)
      | Malformed m \<Rightarrow> Inl (Exc ValidationError (''Invalid YAML format: '' @ m))
      | Loaded config \<Rightarrow>
          (case check_fields required_fields config of
             Inl e \<Rightarrow> Inl e
           | Inr errors \<Rightarrow>
               if errors \<noteq> [] then Inl (Exc ValidationError ''YAML validation failed'')
               else Inr config))"

text \<open>
  \<^verbatim>\<open>LocalRunner.submit_job\<close> (lines 82-131). The fresh uuid and the clock reading are
  arguments. A \<^verbatim>\<open>ValidationError\<close> is logged and raised again; any other exception of
  \<^verbatim>\<open>validate_yaml\<close> passes through the \<^verbatim>\<open>try\<close> untouched. Only after validation the
  record is stored and the thread started.
\<close>

definition submit_job ::
  "(string \<Rightarrow> file_read) \<Rightarrow> string \<Rightarrow> nat \<Rightarrow> string \<Rightarrow> (string \<times> string) list
     \<Rightarrow> LocalRunner \<Rightarrow> (exc + Job) \<times> LocalRunner" where
  "submit_job fs jid now yaml_path kwargs r =
     (case validate_yaml fs yaml_path of
        Inl e \<Rightarrow> (Inl e, r)
      | Inr config \<Rightarrow>
          (Inr (new_Job jid
                  (Some \<lparr>s_job_id = jid, state = SUBMITTED, progress = Some 0,
                         message = ''Job submitted'', created_at = now, updated_at = now\<rparr>)),
           r\<lparr>jobs := AList.update jid
                 \<lparr>d_job_id = jid, d_yaml_path = yaml_path, d_status = SUBMITTED,
                  d_created_at = now, d_updated_at = now, d_progress = Some 0,
                  d_message = ''Job submitted'', d_kwargs = kwargs, d_results = None,
                  d_error = None\<rparr>
                 (jobs r),
             threads := threads r @ [jid]\<rparr>))"

text \<open>
  \<^verbatim>\<open>QETLClient.submit_job\<close> (client.py, lines 104-133) in local mode: every exception of
  the backend, a \<^verbatim>\<open>ValidationError\<close> included, is caught and a plain \<^verbatim>\<open>QETLError\<close> is
  raised in its place.
\<close>

definition QETLClient_submit_job ::
  "(string \<Rightarrow> file_read) \<Rightarrow> string \<Rightarrow> nat \<Rightarrow> string \<Rightarrow> (string \<times> string) list
     \<Rightarrow> LocalRunner \<Rightarrow> (exc + Job) \<times> LocalRunner" where
  "QETLClient_submit_job fs jid now yaml_file kwargs r =
     (if fs yaml_file = NoSuchFile
      then (Inl (Exc QETLError (''YAML file not found: '' @ yaml_file)), r)
      else
        (case submit_job fs jid now yaml_file kwargs r of
           (Inl e, r') \<Rightarrow> (Inl (Exc QETLError (''Job submission failed: '' @ str_exc e)), r')
         | (Inr job, r') \<Rightarrow> (Inr job, r')))"

section \<open>Background execution (local_runner.py)\<close>

text \<open>Python's \<^verbatim>\<open>str\<close> of a non-negative \<^verbatim>\<open>int\<close>, and \<^verbatim>\<open>str.split('\n')\<close>.\<close>

definition digit_char :: "nat \<Rightarrow> char" where
  "digit_char d = ''0123456789'' ! d"

fun str_nat :: "nat \<Rightarrow> string" where
  "str_nat n = (if n < 10 then [digit_char n] else str_nat (n div 10) @ [digit_char (n mod 10)])"

declare str_nat.simps [simp del]

fun split_newline :: "string \<Rightarrow> string list" where
  "split_newline [] = [[]]"
| "split_newline (c # cs) =
     (if c = CHR 0x0A then [] # split_newline cs
      else (case split_newline cs of
              [] \<Rightarrow> [[c]]
            | l # ls \<Rightarrow> (c # l) # ls))"

text \<open>
  What \<^verbatim>\<open>subprocess.run\<close> does with the pipeline command: the process exits (return code,
  stdout, stderr), the timeout expires, or the call raises something else.
\<close>

datatype proc_outcome = Exited int string string | TimeoutExpired | RunRaised string

record pipeline_result =
  res_outputs :: "(string \<times> string) list"
  res_logs :: "string list"
  res_metrics :: "(string \<times> string) list"

text \<open>
  The surroundings of one run of \<^verbatim>\<open>_execute_job\<close>: the file system, what the subprocess
  does, the measured duration, the \<open>k\<close>-th reading of the clock, the command line joined by
  spaces, and \<^verbatim>\<open>_parse_pipeline_outputs\<close> (lines 249-280), a pure function of stdout that
  no property below depends on and that is taken as it comes.
\<close>

record run_env =
  files :: "string \<Rightarrow> file_read"
  process :: proc_outcome
  elapsed :: nat
  clock :: "nat \<Rightarrow> nat"
  command_line :: string
  parse_pipeline_outputs :: "string \<Rightarrow> (string \<times> string) list"

text \<open>
  \<^verbatim>\<open>_run_yaml_pipeline\<close> (lines 194-247). The \<^verbatim>\<open>JobExecutionError\<close> raised for a non-zero
  return code is raised inside the \<^verbatim>\<open>try\<close>, so the last handler catches it and wraps its
  text once more.
\<close>

definition run_yaml_pipeline :: "run_env \<Rightarrow> nat \<Rightarrow> exc + pipeline_result" where
  "run_yaml_pipeline env tmo =
     (case process env of
        TimeoutExpired \<Rightarrow>
          Inl (Exc JobExecutionError
                 (''Pipeline execution timed out after '' @ str_nat tmo @ '' seconds''))
      | RunRaised m \<Rightarrow> Inl (Exc JobExecutionError (''Failed to execute pipeline: '' @ m))
      | Exited rc out err \<Rightarrow>
          if rc \<noteq> 0
          then Inl (Exc JobExecutionError
                      (''Failed to execute pipeline: ''
                       @ str_exc (Exc JobExecutionError (''Pipeline execution failed: '' @ err))))
          else Inr \<lparr>res_outputs = parse_pipeline_outputs env out,
                    res_logs = (if out \<noteq> [] then split_newline out else []),
                    res_metrics = [(''return_code'', ''0''),
                                   (''execution_command'', command_line env)]\<rparr>)"

text \<open>
  A run of \<^verbatim>\<open>_execute_job\<close> is given by the runner after each block under the lock, in
  order, and the exception that ends the thread, if one escapes.

  The \<^verbatim>\<open>except\<close> block (lines 182-192), entered at the \<open>k\<close>-th clock reading: the state
  becomes \<^verbatim>\<open>FAILED\<close> with \<^verbatim>\<open>progress=None\<close> and the exception's text, then the error
  entry is stored; \<^verbatim>\<open>self.jobs[job_id]\<close> raises \<^verbatim>\<open>KeyError\<close> for an unknown id.
\<close>

definition handle_exception ::
  "run_env \<Rightarrow> nat \<Rightarrow> string \<Rightarrow> exc \<Rightarrow> LocalRunner \<Rightarrow> exc option \<times> LocalRunner list" where
  "handle_exception env k jid e r =
     (let r1 = update_job_status (clock env k) jid FAILED None (str_exc e) r in
      case map_of (jobs r1) jid of
        None \<Rightarrow> (Some (Exc KeyError (quoted jid)), [r1])
      | Some jd \<Rightarrow>
          (None,
           [r1,
            r1\<lparr>jobs := AList.update jid
                   (jd\<lparr>d_error := Some \<lparr>e_type = class_name (exc_class_of e),
                                        e_message = str_exc e,
                                        e_timestamp = clock env (Suc k)\<rparr>\<rparr>)
                   (jobs r1)\<rparr>]))"

definition prepend :: "'a list \<Rightarrow> 'b \<times> 'a list \<Rightarrow> 'b \<times> 'a list" where
  "prepend xs p = (fst p, xs @ snd p)"

text \<open>
  \<^verbatim>\<open>_execute_job\<close> (lines 133-192). The file is opened and parsed again after the first
  update; its content is not looked at.
\<close>

definition execute_job ::
  "run_env \<Rightarrow> string \<Rightarrow> LocalRunner \<Rightarrow> exc option \<times> LocalRunner list" where
  "execute_job env jid r0 =
     (case map_of (jobs r0) jid of
        None \<Rightarrow> handle_exception env 0 jid (Exc KeyError (quoted jid)) r0
      | Some job_data \<Rightarrow>
          (let r1 = update_job_status (clock env 0) jid VALIDATING (Some 10)
                      ''Validating configuration'' r0 in
           case files env (d_yaml_path job_data) of
             NoSuchFile \<Rightarrow>
               prepend [r1] (handle_exception env 1 jid
                  (Exc FileNotFoundError
                     (''[Errno 2] No such file or directory: '' @ quoted (d_yaml_path job_data)))
                  r1)
           | Unreadable m \<Rightarrow> prepend [r1] (handle_exception env 1 jid (Exc OtherException m) r1)
           | Malformed m \<Rightarrow> prepend [r1] (handle_exception env 1 jid (Exc YAMLError m) r1)
           | Loaded config \<Rightarrow>
               (let r2 = update_job_status (clock env 1) jid QUEUED (Some 20)
                           ''Job queued for execution'' r1;
                    r3 = update_job_status (clock env 2) jid INITIALIZING (Some 30)
                           ''Initializing execution environment'' r2;
                    r4 = update_job_status (clock env 3) jid RUNNING (Some 40)
                           ''Executing pipeline'' r3 in
                case run_yaml_pipeline env (timeout r4) of
                  Inl e \<Rightarrow> prepend [r1, r2, r3, r4] (handle_exception env 4 jid e r4)
                | Inr result \<Rightarrow>
                    (let r5 = update_job_status (clock env 4) jid COMPLETING (Some 90)
                                ''Processing results'' r4 in
                     case map_of (jobs r5) jid of
                       None \<Rightarrow>
                         prepend [r1, r2, r3, r4, r5]
                           (handle_exception env 5 jid (Exc KeyError (quoted jid)) r5)
                     | Some jd \<Rightarrow>
                         (let r6 = r5\<lparr>jobs := AList.update jid
                                      (jd\<lparr>d_results := Some
                                            \<lparr>r_job_id = jid, outputs = res_outputs result,
                                             execution_time = elapsed env,
                                             logs = res_logs result,
                                             metrics = res_metrics result\<rparr>\<rparr>)
                                      (jobs r5)\<rparr>;
                              r7 = update_job_status (clock env 5) jid COMPLETED (Some 100)
                                     ''Job completed successfully'' r6 in
                          (None, [r1, r2, r3, r4, r5, r6, r7]))))))"

section \<open>Methods of the job handle (job.py)\<close>

text \<open>
  The methods of \<^verbatim>\<open>Job\<close> call one another (\<^verbatim>\<open>status\<close> calls \<^verbatim>\<open>get_status\<close>, which may
  call \<^verbatim>\<open>_trigger_completion_callbacks\<close>, which calls \<^verbatim>\<open>get_results\<close>, which reads
  \<^verbatim>\<open>status\<close>), and the wait loop of \<^verbatim>\<open>get_results\<close> has no bound. They are defined
  together with a step budget: every call and every turn of the loop takes one unit,
  and \<open>None\<close> says that the budget ran out before the method returned. A method returns
  when some budget gives \<open>Some\<close>; it does not return when every budget gives \<open>None\<close>.

  The backend is read through \<open>B\<close>: \<open>B t\<close> is the runner as it stands after the handle
  has slept \<open>t\<close> seconds, so the background thread may move the job on while the handle
  waits. An outcome is what the method returns (\<open>Inr\<close>) or raises (\<open>Inl\<close>), with the
  handle after the call.

  \<^item> \<^verbatim>\<open>status\<close> (property, lines 158-163): the cached snapshot when there is one.
  \<^item> \<^verbatim>\<open>get_status\<close> (lines 165-184): reads the backend, calls every status callback,
    and fires the completion callbacks when the state is terminal and some are registered.
  \<^item> \<^verbatim>\<open>get_results\<close> (lines 186-210): the \<^verbatim>\<open>while\<close> loop stands first in the body, so
    one more turn of it is the method started again after the sleep.
  \<^item> \<^verbatim>\<open>_trigger_completion_callbacks\<close> (lines 329-348): every registered callback is
    called, with the results or, when fetching them raised, with \<^verbatim>\<open>None\<close>; the list is
    left as it is.
\<close>

definition call_completion :: "JobResults option \<Rightarrow> Job \<Rightarrow> Job" where
  "call_completion arg j =
     j\<lparr>calls := calls j @ map (\<lambda>cb. (cb, ResultsArg arg)) (j_completion_callbacks j)\<rparr>"

fun status :: "nat \<Rightarrow> (nat \<Rightarrow> LocalRunner) \<Rightarrow> Job \<Rightarrow> ((exc + JobStatus) \<times> Job) option"
and get_status :: "nat \<Rightarrow> (nat \<Rightarrow> LocalRunner) \<Rightarrow> Job \<Rightarrow> ((exc + JobStatus) \<times> Job) option"
and get_results :: "nat \<Rightarrow> (nat \<Rightarrow> LocalRunner) \<Rightarrow> Job \<Rightarrow> ((exc + JobResults) \<times> Job) option"
and trigger_completion_callbacks :: "nat \<Rightarrow> (nat \<Rightarrow> LocalRunner) \<Rightarrow> Job \<Rightarrow> Job option"
where
  "status 0 B j = None"
| "status (Suc n) B j =
     (case j_status j of
        Some st \<Rightarrow> Some (Inr st, j)
      | None \<Rightarrow>
          (case get_status n B j of
             None \<Rightarrow> None
           | Some (Inl e, j1) \<Rightarrow> Some (Inl e, j1)
           | Some (Inr st, j1) \<Rightarrow> Some (Inr st, j1\<lparr>j_status := Some st\<rparr>)))"
| "get_status 0 B j = None"
| "get_status (Suc n) B j =
     (case get_job_status (job_id j) (B (slept j)) of
        Inl e \<Rightarrow> Some (Inl (Exc QETLError (''Failed to get job status: '' @ str_exc e)), j)
      | Inr st \<Rightarrow>
          (let j1 = j\<lparr>j_status := Some st,
                      calls := calls j @ map (\<lambda>cb. (cb, StatusArg st)) (j_status_callbacks j)\<rparr>
           in if is_terminal st \<and> j_completion_callbacks j1 \<noteq> []
              then (case trigger_completion_callbacks n B j1 of
                      None \<Rightarrow> None
                    | Some j2 \<Rightarrow> Some (Inr st, j2))
              else Some (Inr st, j1)))"
| "get_results 0 B j = None"
| "get_results (Suc n) B j =
     (case status n B j of
        None \<Rightarrow> None
      | Some (Inl e, j1) \<Rightarrow> Some (Inl e, j1)
      | Some (Inr st, j1) \<Rightarrow>
          if \<not> is_terminal st then get_results n B (j1\<lparr>slept := Suc (slept j1)\<rparr>)
          else
            (case status n B j1 of
               None \<Rightarrow> None
             | Some (Inl e, j2) \<Rightarrow> Some (Inl e, j2)
             | Some (Inr st2, j2) \<Rightarrow>
                 if \<not> is_successful st2
                 then
                   (case status n B j2 of
                      None \<Rightarrow> None
                    | Some (Inl e, j3) \<Rightarrow> Some (Inl e, j3)
                    | Some (Inr st3, j3) \<Rightarrow>
                        Some (Inl (Exc QETLError
                                     (''Job '' @ job_id j3 @ '' failed: '' @ message st3)), j3))
                 else
                   (case j_results j2 of
                      Some res \<Rightarrow> Some (Inr res, j2)
                    | None \<Rightarrow>
                        (case get_job_results (job_id j2) (B (slept j2)) of
                           Inl e \<Rightarrow>
                             Some (Inl (Exc QETLError
                                          (''Failed to get job results: '' @ str_exc e)), j2)
                         | Inr res \<Rightarrow> Some (Inr res, j2\<lparr>j_results := Some res\<rparr>)))))"
| "trigger_completion_callbacks 0 B j = None"
| "trigger_completion_callbacks (Suc n) B j =
     (if j_completion_callbacks j = [] then Some j
      else
        (case status n B j of
           None \<Rightarrow> None
         | Some (Inl e, j1) \<Rightarrow> Some (call_completion None j1)
         | Some (Inr st, j1) \<Rightarrow>
             if is_successful st
             then (case get_results n B j1 of
                     None \<Rightarrow> None
                   | Some (Inl e, j2) \<Rightarrow> Some (call_completion None j2)
                   | Some (Inr res, j2) \<Rightarrow> Some (call_completion (Some res) j2))
             else Some (call_completion None j1)))"

text \<open>\<^verbatim>\<open>on_completion\<close> (lines 275-286) and \<^verbatim>\<open>on_status_change\<close> (lines 288-295).\<close>

definition on_completion ::
  "nat \<Rightarrow> (nat \<Rightarrow> LocalRunner) \<Rightarrow> string \<Rightarrow> Job \<Rightarrow> ((exc + unit) \<times> Job) option" where
  "on_completion n B callback j =
     (case status n B (j\<lparr>j_completion_callbacks := j_completion_callbacks j @ [callback]\<rparr>) of
        None \<Rightarrow> None
      | Some (Inl e, j1) \<Rightarrow> Some (Inl e, j1)
      | Some (Inr st, j1) \<Rightarrow>
          if is_terminal st
          then (case trigger_completion_callbacks n B j1 of
                  None \<Rightarrow> None
                | Some j2 \<Rightarrow> Some (Inr (), j2))
          else Some (Inr (), j1))"

definition on_status_change :: "string \<Rightarrow> Job \<Rightarrow> Job" where
  "on_status_change callback j = j\<lparr>j_status_callbacks := j_status_callbacks j @ [callback]\<rparr>"

text \<open>
  \<^verbatim>\<open>Job.cancel\<close> (lines 246-258): the cached snapshot is dropped only when the backend
  call returned.
\<close>

definition cancel :: "nat \<Rightarrow> LocalRunner \<Rightarrow> Job \<Rightarrow> (exc + bool) \<times> Job \<times> LocalRunner" where
  "cancel now r j =
     (case cancel_job now (job_id j) r of
        (Inl e, r') \<Rightarrow> (Inl (Exc QETLError (''Failed to cancel job: '' @ str_exc e)), j, r')
      | (Inr result, r') \<Rightarrow> (Inr result, j\<lparr>j_status := None\<rparr>, r'))"

section \<open>Observations and concrete runs\<close>

text \<open>What a reader of the job table sees of one job: state and progress, results, error, message.\<close>

definition view :: "string \<Rightarrow> LocalRunner \<Rightarrow> (JobState \<times> real option) option" where
  "view jid r = map_option (\<lambda>jd. (d_status jd, d_progress jd)) (map_of (jobs r) jid)"

definition results_of :: "string \<Rightarrow> LocalRunner \<Rightarrow> JobResults option" where
  "results_of jid r = (case map_of (jobs r) jid of None \<Rightarrow> None | Some jd \<Rightarrow> d_results jd)"

definition error_of :: "string \<Rightarrow> LocalRunner \<Rightarrow> error_info option" where
  "error_of jid r = (case map_of (jobs r) jid of None \<Rightarrow> None | Some jd \<Rightarrow> d_error jd)"

definition message_of :: "string \<Rightarrow> LocalRunner \<Rightarrow> string option" where
  "message_of jid r = map_option d_message (map_of (jobs r) jid)"

text \<open>
  The history of one job: the runner as \<^verbatim>\<open>submit_job\<close> leaves it, followed by the runner
  after each write of the background thread, when nothing else writes in between.
\<close>

definition job_history ::
  "(string \<Rightarrow> file_read) \<Rightarrow> run_env \<Rightarrow> string \<Rightarrow> nat \<Rightarrow> string \<Rightarrow> (string \<times> string) list
     \<Rightarrow> LocalRunner \<Rightarrow> LocalRunner list" where
  "job_history fs env jid now yaml_path kwargs r =
     snd (submit_job fs jid now yaml_path kwargs r)
     # snd (execute_job env jid (snd (submit_job fs jid now yaml_path kwargs r)))"

text \<open>How often a callback has been called through a handle.\<close>

definition times_called :: "string \<Rightarrow> Job \<Rightarrow> nat" where
  "times_called cb j = length (filter (\<lambda>c. fst c = cb) (calls j))"

text \<open>
  A runner as \<^verbatim>\<open>LocalRunner.__init__\<close> leaves it (lines 38-41), two files, and the
  surroundings of two runs: the pipeline exits with code 0, it runs into the timeout.
\<close>

definition LocalRunner_init :: "nat \<Rightarrow> LocalRunner" where
  "LocalRunner_init tmo = \<lparr>jobs = [], timeout = tmo, threads = []\<rparr>"

definition sample_files :: "string \<Rightarrow> file_read" where
  "sample_files p =
     (if p = ''job.yaml''
      then Loaded (YMapping [''pipeline_name'', ''input_sources'', ''transformations''])
      else if p = ''bad.yaml'' then Loaded (YMapping [''pipeline_name'', ''input_sources''])
      else NoSuchFile)"

definition env_ok :: run_env where
  "env_ok =
     \<lparr>files = sample_files, process = Exited 0 ''Processing complete'' [], elapsed = 2,
      clock = (\<lambda>k. 10 + k), command_line = ''python main.py --config job.yaml --job-id j1'',
      parse_pipeline_outputs = (\<lambda>out. [(''status'', ''completed'')])\<rparr>"

definition env_timeout :: run_env where
  "env_timeout = env_ok\<lparr>process := TimeoutExpired\<rparr>"

definition submitted_runner :: LocalRunner where
  "submitted_runner = snd (submit_job sample_files ''j1'' 0 ''job.yaml'' [] (LocalRunner_init 300))"

definition completed_runner :: LocalRunner where
  "completed_runner = last (snd (execute_job env_ok ''j1'' submitted_runner))"

definition failed_runner :: LocalRunner where
  "failed_runner = last (snd (execute_job env_timeout ''j1'' submitted_runner))"

text \<open>The handle \<^verbatim>\<open>get_job\<close> (lines 379-382) returns: a fresh \<^verbatim>\<open>Job\<close> around the status read.\<close>

definition get_job :: "string \<Rightarrow> LocalRunner \<Rightarrow> exc + Job" where
  "get_job jid r =
     (case get_job_status jid r of
        Inl e \<Rightarrow> Inl e
      | Inr st \<Rightarrow> Inr (new_Job jid (Some st)))"

definition five_jobs :: LocalRunner where
  "five_jobs =
     foldl (\<lambda>r jid. snd (submit_job sample_files jid 0 ''job.yaml'' [] r))
       (LocalRunner_init 300) [''J1'', ''J2'', ''J3'', ''J4'', ''J5'']"

text \<open>
  Handles for the concrete runs: the one \<^verbatim>\<open>get_job\<close> gives for job \<open>j1\<close> once it has
  completed, once it has failed, and one whose snapshot was taken while the job was running.
\<close>

definition handle_of :: "string \<Rightarrow> LocalRunner \<Rightarrow> Job" where
  "handle_of jid r = (case get_job jid r of Inr j \<Rightarrow> j | Inl e \<Rightarrow> new_Job jid None)"

definition running_handle :: Job where
  "running_handle =
     new_Job ''j1''
       (Some \<lparr>s_job_id = ''j1'', state = RUNNING, progress = Some 40,
              message = ''Executing pipeline'', created_at = 0, updated_at = 13\<rparr>)"


section \<open>Runs of the whole runner\<close>

text \<open>
  To follow a record through everything that can happen to it, the background thread is
  taken apart into its writes. One write is one block of \<^verbatim>\<open>_execute_job\<close> under the lock:
  a call of \<^verbatim>\<open>_update_job_status\<close>, the assignment of \<^verbatim>\<open>"results"\<close> (line 175) or the
  assignment of \<^verbatim>\<open>"error"\<close> (lines 188-192). Records are never removed from
  \<^verbatim>\<open>self.jobs\<close>; for an id that is not there no write changes the table.
\<close>

datatype store_write =
  SetStatus nat JobState "real option" string | SetResults JobResults | SetError error_info

fun apply_write :: "string \<Rightarrow> store_write \<Rightarrow> LocalRunner \<Rightarrow> LocalRunner" where
  "apply_write jid (SetStatus now st p m) r = update_job_status now jid st p m r"
| "apply_write jid (SetResults res) r =
     (case map_of (jobs r) jid of
        None \<Rightarrow> r
      | Some jd \<Rightarrow> r\<lparr>jobs := AList.update jid (jd\<lparr>d_results := Some res\<rparr>) (jobs r)\<rparr>)"
| "apply_write jid (SetError err) r =
     (case map_of (jobs r) jid of
        None \<Rightarrow> r
      | Some jd \<Rightarrow> r\<lparr>jobs := AList.update jid (jd\<lparr>d_error := Some err\<rparr>) (jobs r)\<rparr>)"

declare apply_write.simps(2,3) [simp del]

text \<open>
  The writes of the \<^verbatim>\<open>except\<close> block and the writes of a whole run of \<^verbatim>\<open>_execute_job\<close>
  for a job whose record is in the table, in the order of the source (lines 142-192).
  \<open>execute_job_is_its_writes\<close> below shows that applying them one after the other gives
  the very run \<open>execute_job\<close> describes.
\<close>

definition exception_writes :: "run_env \<Rightarrow> nat \<Rightarrow> exc \<Rightarrow> store_write list" where
  "exception_writes env k e =
     [SetStatus (clock env k) FAILED None (str_exc e),
      SetError \<lparr>e_type = class_name (exc_class_of e), e_message = str_exc e,
                e_timestamp = clock env (Suc k)\<rparr>]"

definition execute_job_writes :: "run_env \<Rightarrow> string \<Rightarrow> string \<Rightarrow> nat \<Rightarrow> store_write list" where
  "execute_job_writes env jid yaml_path tmo =
     SetStatus (clock env 0) VALIDATING (Some 10) ''Validating configuration'' #
     (case files env yaml_path of
        NoSuchFile \<Rightarrow>
          exception_writes env 1
            (Exc FileNotFoundError (''[Errno 2] No such file or directory: '' @ quoted yaml_path))
      | Unreadable m \<Rightarrow> exception_writes env 1 (Exc OtherException m)
      | Malformed m \<Rightarrow> exception_writes env 1 (Exc YAMLError m)
      | Loaded config \<Rightarrow>
          [SetStatus (clock env 1) QUEUED (Some 20) ''Job queued for execution'',
           SetStatus (clock env 2) INITIALIZING (Some 30) ''Initializing execution environment'',
           SetStatus (clock env 3) RUNNING (Some 40) ''Executing pipeline''] @
          (case run_yaml_pipeline env tmo of
             Inl e \<Rightarrow> exception_writes env 4 e
           | Inr result \<Rightarrow>
               [SetStatus (clock env 4) COMPLETING (Some 90) ''Processing results'',
                SetResults \<lparr>r_job_id = jid, outputs = res_outputs result,
                            execution_time = elapsed env, logs = res_logs result,
                            metrics = res_metrics result\<rparr>,
                SetStatus (clock env 5) COMPLETED (Some 100) ''Job completed successfully'']))"

fun writes_trace :: "string \<Rightarrow> store_write list \<Rightarrow> LocalRunner \<Rightarrow> LocalRunner list" where
  "writes_trace jid [] r = []"
| "writes_trace jid (w # ws) r = apply_write jid w r # writes_trace jid ws (apply_write jid w r)"


text \<open>
  The whole runner: the job table and, for every job id, the writes its background thread
  has still to make. Three things happen to it, in any order and for any jobs:
  \<^item> \<^verbatim>\<open>submit_job\<close> is called; when validation passes, the record is stored and a thread
    is started, which will meet the surroundings \<open>env\<close>;
  \<^item> the thread of a job makes its next write;
  \<^item> \<^verbatim>\<open>cancel_job\<close> is called for some id (\<^verbatim>\<open>Job.cancel\<close> does nothing else to the
    runner).
  The other methods of the runner and of the handle only read the table.
\<close>

record system =
  runner :: LocalRunner
  pending :: "string \<Rightarrow> store_write list"

datatype event =
  Submit "string \<Rightarrow> file_read" run_env string nat string "(string \<times> string) list"
  | Advance string
  | Cancel nat string

fun fire :: "event \<Rightarrow> system \<Rightarrow> system" where
  "fire (Submit fs env jid now yaml_path kwargs) s =
     (case submit_job fs jid now yaml_path kwargs (runner s) of
        (Inl e, r') \<Rightarrow> s\<lparr>runner := r'\<rparr>
      | (Inr job, r') \<Rightarrow>
          \<lparr>runner = r',
           pending = (pending s)(jid := execute_job_writes env jid yaml_path (timeout r'))\<rparr>)"
| "fire (Advance jid) s =
     (case pending s jid of
        [] \<Rightarrow> s
      | w # ws \<Rightarrow> \<lparr>runner = apply_write jid w (runner s), pending = (pending s)(jid := ws)\<rparr>)"
| "fire (Cancel now jid) s = s\<lparr>runner := snd (cancel_job now jid (runner s))\<rparr>"

fun run :: "event list \<Rightarrow> system \<Rightarrow> system" where
  "run [] s = s"
| "run (e # es) s = run es (fire e s)"




definition job_state :: "string \<Rightarrow> LocalRunner \<Rightarrow> JobState option" where
  "job_state jid r = map_option d_status (map_of (jobs r) jid)"









section \<open>Facts about the job table\<close>

lemma lookup_update_job_status:
  "map_of (jobs r) jid = Some jd \<Longrightarrow>
   map_of (jobs (update_job_status now jid st p m r)) jid =
     Some (jd\<lparr>d_status := st, d_progress := p, d_message := m, d_updated_at := now\<rparr>)"
  by (simp add: update_job_status_def update_conv')

lemma timeout_update_job_status [simp]:
  "timeout (update_job_status now jid st p m r) = timeout r"
  by (simp add: update_job_status_def split: option.split)

lemma view_update_job_status:
  "map_of (jobs r) jid = Some jd \<Longrightarrow>
   view jid (update_job_status now jid st p m r) = Some (st, p)"
  by (simp add: view_def lookup_update_job_status)

lemma lookup_submit_job:
  "validate_yaml fs path = Inr cfg \<Longrightarrow>
   map_of (jobs (snd (submit_job fs jid now path kw r))) jid =
     Some \<lparr>d_job_id = jid, d_yaml_path = path, d_status = SUBMITTED,
            d_created_at = now, d_updated_at = now, d_progress = Some 0,
            d_message = ''Job submitted'', d_kwargs = kw, d_results = None,
            d_error = None\<rparr>"
  by (simp add: submit_job_def update_conv')

lemma submit_job_rejected:
  "validate_yaml fs path = Inl e \<Longrightarrow> submit_job fs jid now path kw r = (Inl e, r)"
  by (simp add: submit_job_def)

lemma QETLClient_submit_job_rejected:
  "validate_yaml fs path = Inl e \<Longrightarrow>
   snd (QETLClient_submit_job fs jid now path kw r) = r \<and>
   (\<exists>m. fst (QETLClient_submit_job fs jid now path kw r) = Inl (Exc QETLError m))"
  by (simp add: QETLClient_submit_job_def submit_job_rejected)

lemma cancel_job_existing:
  "map_of (jobs r) jid = Some jd \<Longrightarrow>
   cancel_job now jid r =
     (Inl (Exc AttributeError
             (quoted ''JobState'' @ '' object has no attribute '' @ quoted ''is_terminal'')), r)"
  by (simp add: cancel_job_def JobState_is_terminal_def)

lemma submitted_runner_eq:
  "submitted_runner =
     \<lparr>jobs = [(''j1'', \<lparr>d_job_id = ''j1'', d_yaml_path = ''job.yaml'', d_status = SUBMITTED,
                  d_created_at = 0, d_updated_at = 0, d_progress = Some 0,
                  d_message = ''Job submitted'', d_kwargs = [], d_results = None,
                  d_error = None\<rparr>)], timeout = 300, threads = [''j1'']\<rparr>"
  by (simp add: submitted_runner_def submit_job_def validate_yaml_def sample_files_def
      required_fields_def LocalRunner_init_def)

section \<open>Facts about the background run\<close>

lemma execute_job_success:
  assumes "map_of (jobs r0) jid = Some jd"
    and "files env (d_yaml_path jd) = Loaded cfg"
    and "process env = Exited 0 out err"
  shows "fst (execute_job env jid r0) = None \<and>
     map (view jid) (snd (execute_job env jid r0)) =
       [Some (VALIDATING, Some 10), Some (QUEUED, Some 20), Some (INITIALIZING, Some 30),
        Some (RUNNING, Some 40), Some (COMPLETING, Some 90), Some (COMPLETING, Some 90),
        Some (COMPLETED, Some 100)] \<and>
     map (results_of jid) (snd (execute_job env jid r0)) =
       [d_results jd, d_results jd, d_results jd, d_results jd, d_results jd,
        Some \<lparr>r_job_id = jid, outputs = parse_pipeline_outputs env out,
               execution_time = elapsed env,
               logs = (if out \<noteq> [] then split_newline out else []),
               metrics = [(''return_code'', ''0''), (''execution_command'', command_line env)]\<rparr>,
        Some \<lparr>r_job_id = jid, outputs = parse_pipeline_outputs env out,
               execution_time = elapsed env,
               logs = (if out \<noteq> [] then split_newline out else []),
               metrics = [(''return_code'', ''0''), (''execution_command'', command_line env)]\<rparr>]"
  using assms
  by (simp add: execute_job_def run_yaml_pipeline_def Let_def lookup_update_job_status
      view_def results_of_def update_conv')

lemma run_yaml_pipeline_class:
  "run_yaml_pipeline env tmo = Inl e \<Longrightarrow> exc_class_of e = JobExecutionError"
  by (auto simp: run_yaml_pipeline_def split: proc_outcome.splits if_splits)

lemma execute_job_failure:
  assumes "map_of (jobs r0) jid = Some jd"
    and "files env (d_yaml_path jd) = Loaded cfg"
    and "run_yaml_pipeline env (timeout r0) = Inl e"
  shows "fst (execute_job env jid r0) = None \<and>
     map (view jid) (snd (execute_job env jid r0)) =
       [Some (VALIDATING, Some 10), Some (QUEUED, Some 20), Some (INITIALIZING, Some 30),
        Some (RUNNING, Some 40), Some (FAILED, None), Some (FAILED, None)] \<and>
     message_of jid (last (snd (execute_job env jid r0))) = Some (str_exc e) \<and>
     error_of jid (last (snd (execute_job env jid r0))) =
       Some \<lparr>e_type = ''JobExecutionError'', e_message = str_exc e, e_timestamp = clock env 5\<rparr>"
  using assms run_yaml_pipeline_class[OF assms(3)]
  by (simp add: execute_job_def handle_exception_def prepend_def Let_def lookup_update_job_status
      view_def error_of_def message_of_def update_conv')


section \<open>Facts about runs of the whole runner\<close>

lemma execute_job_is_its_writes:
  assumes "map_of (jobs r0) jid = Some jd"
  shows "snd (execute_job env jid r0) =
     writes_trace jid (execute_job_writes env jid (d_yaml_path jd) (timeout r0)) r0"
  using assms
  by (simp add: execute_job_def execute_job_writes_def exception_writes_def handle_exception_def
      prepend_def Let_def lookup_update_job_status update_conv' apply_write.simps
      split: file_read.split sum.split)






lemma job_state_SetResults [simp]:
  "job_state jid' (apply_write jid (SetResults res) r) = job_state jid' r"
  by (auto simp: job_state_def update_conv' apply_write.simps split: option.split)

lemma job_state_SetError [simp]:
  "job_state jid' (apply_write jid (SetError err) r) = job_state jid' r"
  by (auto simp: job_state_def update_conv' apply_write.simps split: option.split)













section \<open>Facts about listing\<close>

lemma list_jobs_loop_take:
  "int (length acc) < limit \<Longrightarrow>
   list_jobs_loop flt limit items acc =
     take (nat limit) (acc @ map job_of_item (filter (\<lambda>i. \<not> skipped flt i) items))"
proof (induction items arbitrary: acc)
  case Nil
  then show ?case by simp
next
  case (Cons item rest)
  show ?case
  proof (cases "skipped flt item")
    case True
    with Cons show ?thesis by simp
  next
    case False
    show ?thesis
    proof (cases "int (length (acc @ [job_of_item item])) \<ge> limit")
      case True
      with Cons.prems have "nat limit = Suc (length acc)" by simp
      with False True show ?thesis by simp
    next
      case full: False
      then have "int (length (acc @ [job_of_item item])) < limit" by simp
      from Cons.IH[OF this] False full show ?thesis by simp
    qed
  qed
qed

lemma list_jobs_take:
  "0 < limit \<Longrightarrow>
   list_jobs flt limit r =
     take (nat limit) (map job_of_item (filter (\<lambda>i. \<not> skipped flt i) (jobs r)))"
  using list_jobs_loop_take[of "[]" limit flt "jobs r"] by (simp add: list_jobs_def)

lemma list_jobs_five_limit_two: "map job_id (list_jobs None 2 five_jobs) = [''J1'', ''J2'']"
  by code_simp

section \<open>Facts about the handle\<close>

lemma get_results_not_successful:
  assumes "j_status j = Some st" and "is_terminal st" and "\<not> is_successful st"
  shows "get_results (Suc (Suc n)) B j =
     Some (Inl (Exc QETLError (''Job '' @ job_id j @ '' failed: '' @ message st)), j)"
  using assms by simp

section \<open>The claims\<close>



text \<open>
  C2. Claim: for every existing job, \<^verbatim>\<open>cancel()\<close> returns false when the job is already
  terminal and returns true exactly when the CANCELLED transition is recorded.

  For a job that exists \<^verbatim>\<open>cancel_job\<close> neither returns nor records anything: the read of
  \<^verbatim>\<open>is_terminal\<close> on the stored \<^verbatim>\<open>JobState\<close> raises \<^verbatim>\<open>AttributeError\<close>, for the job just
  submitted as for the completed one, the runner stays as it was, and \<^verbatim>\<open>Job.cancel\<close>
  turns the exception into a \<^verbatim>\<open>QETLError\<close>.
\<close>

theorem cancel_job_raises_for_existing_job:
  "cancel_job 20 ''j1'' submitted_runner =
     (Inl (Exc AttributeError
            (quoted ''JobState'' @ '' object has no attribute '' @ quoted ''is_terminal'')),
      submitted_runner) \<and>
   cancel_job 20 ''j1'' completed_runner =
     (Inl (Exc AttributeError
            (quoted ''JobState'' @ '' object has no attribute '' @ quoted ''is_terminal'')),
      completed_runner) \<and>
   cancel 20 completed_runner (handle_of ''j1'' completed_runner) =
     (Inl (Exc QETLError
            (''Failed to cancel job: '' @ quoted ''JobState'' @ '' object has no attribute ''
             @ quoted ''is_terminal'')),
      handle_of ''j1'' completed_runner, completed_runner)"
  by code_simp

text \<open>
  C3. Claim: for every successfully executed job the recorded sequence of state and
  progress is exactly SUBMITTED (0), VALIDATING (10), QUEUED (20), INITIALIZING (30),
  RUNNING (40), COMPLETING (90), COMPLETED (100), each written to the job table in that
  order, with the results populated on COMPLETED.

  A job is executed successfully when validation accepts the file at submission, the
  thread can load the file again and the pipeline process exits with code 0. Its history
  has eight entries: the seven states in order, COMPLETING seen twice because the results
  are stored in a write of their own between COMPLETING and COMPLETED. The results are
  absent up to COMPLETING and present from that write on.
\<close>

theorem successful_job_history:
  assumes "validate_yaml fs yaml_path = Inr config"
    and "files env yaml_path = Loaded config'"
    and "process env = Exited 0 out err"
  shows "map (view jid) (job_history fs env jid now yaml_path kwargs r) =
       [Some (SUBMITTED, Some 0), Some (VALIDATING, Some 10), Some (QUEUED, Some 20),
        Some (INITIALIZING, Some 30), Some (RUNNING, Some 40), Some (COMPLETING, Some 90),
        Some (COMPLETING, Some 90), Some (COMPLETED, Some 100)] \<and>
     remdups_adj (map (view jid) (job_history fs env jid now yaml_path kwargs r)) =
       [Some (SUBMITTED, Some 0), Some (VALIDATING, Some 10), Some (QUEUED, Some 20),
        Some (INITIALIZING, Some 30), Some (RUNNING, Some 40), Some (COMPLETING, Some 90),
        Some (COMPLETED, Some 100)] \<and>
     map (results_of jid) (job_history fs env jid now yaml_path kwargs r) =
       [None, None, None, None, None, None,
        Some \<lparr>r_job_id = jid, outputs = parse_pipeline_outputs env out,
               execution_time = elapsed env,
               logs = (if out \<noteq> [] then split_newline out else []),
               metrics = [(''return_code'', ''0''), (''execution_command'', command_line env)]\<rparr>,
        Some \<lparr>r_job_id = jid, outputs = parse_pipeline_outputs env out,
               execution_time = elapsed env,
               logs = (if out \<noteq> [] then split_newline out else []),
               metrics = [(''return_code'', ''0''), (''execution_command'', command_line env)]\<rparr>]"
proof -
  let ?r0 = "snd (submit_job fs jid now yaml_path kwargs r)"
  let ?jd = "\<lparr>d_job_id = jid, d_yaml_path = yaml_path, d_status = SUBMITTED,
              d_created_at = now, d_updated_at = now, d_progress = Some 0,
              d_message = ''Job submitted'', d_kwargs = kwargs, d_results = None,
              d_error = None\<rparr>"
  have stored: "map_of (jobs ?r0) jid = Some ?jd"
    using assms(1) by (rule lookup_submit_job)
  have loaded: "files env (d_yaml_path ?jd) = Loaded config'"
    using assms(2) by simp
  note run = execute_job_success[OF stored loaded assms(3)]
  have first: "view jid ?r0 = Some (SUBMITTED, Some 0)" "results_of jid ?r0 = None"
    using stored by (simp_all add: view_def results_of_def)
  have views: "map (view jid) (job_history fs env jid now yaml_path kwargs r) =
       [Some (SUBMITTED, Some 0), Some (VALIDATING, Some 10), Some (QUEUED, Some 20),
        Some (INITIALIZING, Some 30), Some (RUNNING, Some 40), Some (COMPLETING, Some 90),
        Some (COMPLETING, Some 90), Some (COMPLETED, Some 100)]"
    using run first by (simp add: job_history_def)
  have res: "map (results_of jid) (job_history fs env jid now yaml_path kwargs r) =
       [None, None, None, None, None, None,
        Some \<lparr>r_job_id = jid, outputs = parse_pipeline_outputs env out,
               execution_time = elapsed env,
               logs = (if out \<noteq> [] then split_newline out else []),
               metrics = [(''return_code'', ''0''), (''execution_command'', command_line env)]\<rparr>,
        Some \<lparr>r_job_id = jid, outputs = parse_pipeline_outputs env out,
               execution_time = elapsed env,
               logs = (if out \<noteq> [] then split_newline out else []),
               metrics = [(''return_code'', ''0''), (''execution_command'', command_line env)]\<rparr>]"
    using run first by (simp add: job_history_def)
  show ?thesis
    unfolding views res by simp
qed

theorem successful_job_history_witness:
  "validate_yaml sample_files ''job.yaml'' =
     Inr (YMapping [''pipeline_name'', ''input_sources'', ''transformations'']) \<and>
   files env_ok ''job.yaml'' =
     Loaded (YMapping [''pipeline_name'', ''input_sources'', ''transformations'']) \<and>
   process env_ok = Exited 0 ''Processing complete'' [] \<and>
   remdups_adj (map (view ''j1'')
       (job_history sample_files env_ok ''j1'' 0 ''job.yaml'' [] (LocalRunner_init 300))) =
     [Some (SUBMITTED, Some 0), Some (VALIDATING, Some 10), Some (QUEUED, Some 20),
      Some (INITIALIZING, Some 30), Some (RUNNING, Some 40), Some (COMPLETING, Some 90),
      Some (COMPLETED, Some 100)] \<and>
   results_of ''j1''
       (last (job_history sample_files env_ok ''j1'' 0 ''job.yaml'' [] (LocalRunner_init 300))) =
     Some \<lparr>r_job_id = ''j1'', outputs = [(''status'', ''completed'')], execution_time = 2,
            logs = [''Processing complete''],
            metrics = [(''return_code'', ''0''),
                       (''execution_command'', ''python main.py --config job.yaml --job-id j1'')]\<rparr>"
proof -
  have h1: "validate_yaml sample_files ''job.yaml'' =
      Inr (YMapping [''pipeline_name'', ''input_sources'', ''transformations''])"
    by (simp add: validate_yaml_def sample_files_def required_fields_def)
  have h2: "files env_ok ''job.yaml'' =
      Loaded (YMapping [''pipeline_name'', ''input_sources'', ''transformations''])"
    by (simp add: env_ok_def sample_files_def)
  have h3: "process env_ok = Exited 0 ''Processing complete'' []"
    by (simp add: env_ok_def)
  note run = successful_job_history[OF h1 h2 h3, of "''j1''" 0 "[]" "LocalRunner_init 300"]
  have nonempty: "job_history sample_files env_ok ''j1'' 0 ''job.yaml'' [] (LocalRunner_init 300) \<noteq> []"
    by (simp add: job_history_def)
  have "last (map (results_of ''j1'')
          (job_history sample_files env_ok ''j1'' 0 ''job.yaml'' [] (LocalRunner_init 300))) =
        Some \<lparr>r_job_id = ''j1'', outputs = [(''status'', ''completed'')], execution_time = 2,
            logs = [''Processing complete''],
            metrics = [(''return_code'', ''0''),
                       (''execution_command'', ''python main.py --config job.yaml --job-id j1'')]\<rparr>"
    using run by (simp add: env_ok_def)
  then have fin: "results_of ''j1''
       (last (job_history sample_files env_ok ''j1'' 0 ''job.yaml'' [] (LocalRunner_init 300))) =
        Some \<lparr>r_job_id = ''j1'', outputs = [(''status'', ''completed'')], execution_time = 2,
            logs = [''Processing complete''],
            metrics = [(''return_code'', ''0''),
                       (''execution_command'', ''python main.py --config job.yaml --job-id j1'')]\<rparr>"
    using nonempty by (simp add: last_map)
  show ?thesis
    using h1 h2 h3 run fin by simp
qed

text \<open>
  C4. Claim: for every \<^verbatim>\<open>Job\<close> whose cached status snapshot is not terminal,
  \<^verbatim>\<open>Job.get_results\<close> does not terminate: the wait loop reads only the cached \<^verbatim>\<open>status\<close>
  property and never calls \<^verbatim>\<open>get_status\<close>, so its condition cannot become true, even
  after the backend job has reached a terminal state.

  With a cached snapshot that is not terminal, no budget lets \<^verbatim>\<open>get_results\<close> return,
  whatever the backend holds at any time. (Nothing but this call touches the handle.)
\<close>

theorem get_results_never_returns:
  "j_status j = Some st \<Longrightarrow> \<not> is_terminal st \<Longrightarrow> get_results n B j = None"
proof (induction n arbitrary: j)
  case 0
  show ?case by simp
next
  case (Suc n)
  show ?case
  proof (cases n)
    case 0
    then show ?thesis by simp
  next
    case (Suc m)
    have "get_results n B (j\<lparr>slept := Suc (slept j)\<rparr>) = None"
      using Suc.prems by (intro Suc.IH) simp_all
    with Suc Suc.prems show ?thesis by simp
  qed
qed

theorem get_results_never_returns_witness:
  "j_status running_handle =
     Some \<lparr>s_job_id = ''j1'', state = RUNNING, progress = Some 40,
            message = ''Executing pipeline'', created_at = 0, updated_at = 13\<rparr> \<and>
   \<not> is_terminal \<lparr>s_job_id = ''j1'', state = RUNNING, progress = Some 40,
                   message = ''Executing pipeline'', created_at = 0, updated_at = 13\<rparr> \<and>
   view ''j1'' completed_runner = Some (COMPLETED, Some 100) \<and>
   (\<forall>n. get_results n (\<lambda>t. completed_runner) running_handle = None)"
proof -
  have h1: "j_status running_handle =
     Some \<lparr>s_job_id = ''j1'', state = RUNNING, progress = Some 40,
            message = ''Executing pipeline'', created_at = 0, updated_at = 13\<rparr>"
    by (simp add: running_handle_def new_Job_def)
  have h2: "\<not> is_terminal \<lparr>s_job_id = ''j1'', state = RUNNING, progress = Some 40,
                   message = ''Executing pipeline'', created_at = 0, updated_at = 13\<rparr>"
    by (simp add: is_terminal_def)
  have h3: "view ''j1'' completed_runner = Some (COMPLETED, Some 100)"
    by code_simp
  show ?thesis
    using h1 h2 h3 get_results_never_returns[OF h1 h2] by simp
qed

text \<open>
  C5. Claim: a completion callback is invoked exactly once when a terminal state is
  reached; one registered after the job is already COMPLETED is invoked at once, exactly
  once, and never again by later registrations or status reads.

  On the handle of the completed job \<open>j1\<close>, registering \<open>cb1\<close> calls it once. Registering
  \<open>cb2\<close> afterwards calls \<open>cb1\<close> a second time, and so does a later \<^verbatim>\<open>get_status\<close>:
  \<^verbatim>\<open>_trigger_completion_callbacks\<close> calls every callback of the list each time, and the
  list is never emptied.
\<close>

theorem completion_callback_called_twice:
  "map_option (\<lambda>p. times_called ''cb1'' (snd p))
     (on_completion 10 (\<lambda>t. completed_runner) ''cb1'' (handle_of ''j1'' completed_runner))
     = Some 1 \<and>
   map_option (\<lambda>p. times_called ''cb1'' (snd p))
     (Option.bind
        (on_completion 10 (\<lambda>t. completed_runner) ''cb1'' (handle_of ''j1'' completed_runner))
        (\<lambda>p. on_completion 10 (\<lambda>t. completed_runner) ''cb2'' (snd p)))
     = Some 2 \<and>
   map_option (\<lambda>p. times_called ''cb1'' (snd p))
     (Option.bind
        (on_completion 10 (\<lambda>t. completed_runner) ''cb1'' (handle_of ''j1'' completed_runner))
        (\<lambda>p. get_status 10 (\<lambda>t. completed_runner) (snd p)))
     = Some 2"
  by code_simp

text \<open>
  C6. Claim: for every spec that fails validation, \<^verbatim>\<open>submit\<close> fails synchronously with a
  \<^verbatim>\<open>ValidationError\<close> before any job record or state transition is recorded.

  The file \<open>bad.yaml\<close> has no \<^verbatim>\<open>transformations\<close> section. The backend raises
  \<^verbatim>\<open>ValidationError\<close> and leaves the runner as it was (no record, no thread), but
  \<^verbatim>\<open>QETLClient.submit_job\<close> catches it and raises a plain \<^verbatim>\<open>QETLError\<close> instead.
\<close>

theorem client_submit_job_loses_validation_error:
  "QETLClient_submit_job sample_files ''j2'' 5 ''bad.yaml'' [] submitted_runner =
     (Inl (Exc QETLError ''Job submission failed: [VALIDATION_ERROR] YAML validation failed''),
      submitted_runner) \<and>
   submit_job sample_files ''j2'' 5 ''bad.yaml'' [] submitted_runner =
     (Inl (Exc ValidationError ''YAML validation failed''), submitted_runner)"
  by code_simp

text \<open>
  C7. Claim: for every job that ends in a terminal state other than COMPLETED,
  \<^verbatim>\<open>results()\<close> fails with an error of the execution-failed class carrying the stored
  error.

  For the job that ran into the timeout, \<^verbatim>\<open>get_results\<close> on the handle \<^verbatim>\<open>get_job\<close>
  returns raises a plain \<^verbatim>\<open>QETLError\<close>, not a \<^verbatim>\<open>JobExecutionError\<close>; its text is built
  from the status message.
\<close>

theorem get_results_raises_plain_QETLError:
  "get_results 10 (\<lambda>t. failed_runner) (handle_of ''j1'' failed_runner) =
     Some (Inl (Exc QETLError
                  ''Job j1 failed: [JOB_EXECUTION_ERROR] Pipeline execution timed out after 300 seconds''),
           handle_of ''j1'' failed_runner)"
  by code_simp

text \<open>
  C8. Claim: for every job that fails after execution has started, the transition to
  FAILED leaves progress at its last known value, and the record's error is populated with
  the failure kind and the original message.

  As stated the claim fails: in the run that meets the timeout the fourth write records
  RUNNING with progress 40 and the fifth records FAILED with progress unset.
\<close>

theorem failure_keeps_progress_counterexample:
  "map (view ''j1'') (snd (execute_job env_timeout ''j1'' submitted_runner)) ! 3
     = Some (RUNNING, Some 40) \<and>
   map (view ''j1'') (snd (execute_job env_timeout ''j1'' submitted_runner)) ! 4
     = Some (FAILED, None)"
  by code_simp

text \<open>
  C8, as amended: for every job whose pipeline run fails after the file was loaded
  (process failure or timeout), the states written are VALIDATING (10), QUEUED (20),
  INITIALIZING (30), RUNNING (40) and then FAILED with progress unset; the message of the
  record is the text of the exception, and the error entry stored last holds the class
  name \<^verbatim>\<open>JobExecutionError\<close> and that same text.
\<close>

theorem failure_clears_progress:
  assumes "map_of (jobs r0) jid = Some jd"
    and "files env (d_yaml_path jd) = Loaded config"
    and "run_yaml_pipeline env (timeout r0) = Inl e"
  shows "map (view jid) (snd (execute_job env jid r0)) =
       [Some (VALIDATING, Some 10), Some (QUEUED, Some 20), Some (INITIALIZING, Some 30),
        Some (RUNNING, Some 40), Some (FAILED, None), Some (FAILED, None)] \<and>
     message_of jid (last (snd (execute_job env jid r0))) = Some (str_exc e) \<and>
     error_of jid (last (snd (execute_job env jid r0))) =
       Some \<lparr>e_type = ''JobExecutionError'', e_message = str_exc e, e_timestamp = clock env 5\<rparr>"
  using execute_job_failure[OF assms] by simp

theorem failure_clears_progress_witness:
  "map_of (jobs submitted_runner) ''j1'' =
     Some \<lparr>d_job_id = ''j1'', d_yaml_path = ''job.yaml'', d_status = SUBMITTED,
            d_created_at = 0, d_updated_at = 0, d_progress = Some 0,
            d_message = ''Job submitted'', d_kwargs = [], d_results = None, d_error = None\<rparr> \<and>
   files env_timeout ''job.yaml'' =
     Loaded (YMapping [''pipeline_name'', ''input_sources'', ''transformations'']) \<and>
   run_yaml_pipeline env_timeout (timeout submitted_runner) =
     Inl (Exc JobExecutionError ''Pipeline execution timed out after 300 seconds'') \<and>
   map (view ''j1'') (snd (execute_job env_timeout ''j1'' submitted_runner)) =
     [Some (VALIDATING, Some 10), Some (QUEUED, Some 20), Some (INITIALIZING, Some 30),
      Some (RUNNING, Some 40), Some (FAILED, None), Some (FAILED, None)] \<and>
   error_of ''j1'' (last (snd (execute_job env_timeout ''j1'' submitted_runner))) =
     Some \<lparr>e_type = ''JobExecutionError'',
            e_message = ''[JOB_EXECUTION_ERROR] Pipeline execution timed out after 300 seconds'',
            e_timestamp = 15\<rparr>"
proof -
  have h1: "map_of (jobs submitted_runner) ''j1'' =
     Some \<lparr>d_job_id = ''j1'', d_yaml_path = ''job.yaml'', d_status = SUBMITTED,
            d_created_at = 0, d_updated_at = 0, d_progress = Some 0,
            d_message = ''Job submitted'', d_kwargs = [], d_results = None, d_error = None\<rparr>"
    by (simp add: submitted_runner_eq)
  have h2: "files env_timeout
       (d_yaml_path \<lparr>d_job_id = ''j1'', d_yaml_path = ''job.yaml'', d_status = SUBMITTED,
            d_created_at = 0, d_updated_at = 0, d_progress = Some 0,
            d_message = ''Job submitted'', d_kwargs = [], d_results = None, d_error = None\<rparr>) =
     Loaded (YMapping [''pipeline_name'', ''input_sources'', ''transformations''])"
    by (simp add: env_timeout_def env_ok_def sample_files_def)
  have h3: "run_yaml_pipeline env_timeout (timeout submitted_runner) =
     Inl (Exc JobExecutionError ''Pipeline execution timed out after 300 seconds'')"
    by (simp add: run_yaml_pipeline_def env_timeout_def env_ok_def submitted_runner_eq
        str_nat.simps digit_char_def)
  have clk: "clock env_timeout 5 = 15"
    by (simp add: env_timeout_def env_ok_def)
  show ?thesis
    using h1 h2 h3 clk failure_clears_progress[OF h1 h2 h3] by simp
qed

text \<open>
  C9. Claim: for every job id that is not in the store, every lookup (status, results,
  logs, cancel) fails with a not-found error; no operation returns a default value for an
  unknown id.

  As stated the claim fails for \<^verbatim>\<open>cancel_job\<close>: for an id the runner does not hold it
  returns \<^verbatim>\<open>False\<close> and raises nothing.
\<close>

theorem cancel_unknown_id_counterexample:
  "cancel_job 20 ''ghost'' submitted_runner = (Inr False, submitted_runner)"
  by code_simp

text \<open>
  C9, as amended: for every job id that is not in the store, the status, results and logs
  lookups raise an error whose message is \<^verbatim>\<open>Job not found: <id>\<close> and return no default
  value, while \<^verbatim>\<open>cancel_job\<close> returns \<^verbatim>\<open>False\<close> and leaves the runner unchanged.
\<close>

theorem unknown_id_lookups:
  assumes "map_of (jobs r) jid = None"
  shows "map_sum exc_message (\<lambda>x. ()) (get_job_status jid r) = Inl (''Job not found: '' @ jid) \<and>
     map_sum exc_message (\<lambda>x. ()) (get_job_results jid r) = Inl (''Job not found: '' @ jid) \<and>
     map_sum exc_message (\<lambda>x. ()) (get_job_logs jid r) = Inl (''Job not found: '' @ jid) \<and>
     cancel_job now jid r = (Inr False, r)"
  using assms
  by (simp add: get_job_status_def get_job_results_def get_job_logs_def cancel_job_def)

theorem unknown_id_lookups_witness:
  "map_of (jobs submitted_runner) ''ghost'' = None \<and>
   map_sum exc_message (\<lambda>x. ()) (get_job_status ''ghost'' submitted_runner)
     = Inl ''Job not found: ghost'' \<and>
   map_sum exc_message (\<lambda>x. ()) (get_job_results ''ghost'' submitted_runner)
     = Inl ''Job not found: ghost'' \<and>
   map_sum exc_message (\<lambda>x. ()) (get_job_logs ''ghost'' submitted_runner)
     = Inl ''Job not found: ghost'' \<and>
   cancel_job 7 ''ghost'' submitted_runner = (Inr False, submitted_runner)"
proof -
  have h: "map_of (jobs submitted_runner) ''ghost'' = None"
    by (simp add: submitted_runner_eq)
  show ?thesis
    using h unknown_id_lookups[OF h, of 7] by simp
qed

text \<open>
  C10. Claim: for every store and every limit, \<^verbatim>\<open>list\<close> returns the jobs in insertion
  order, capped at the limit, the state filter applied before the cap; with limit 2 over
  five jobs J1..J5 it returns exactly J1 and J2.

  With limit 0 over the five jobs \<^verbatim>\<open>list_jobs\<close> returns one job, J1: the length is
  compared with the limit only after a job has been appended. (For every limit of at
  least 1 the result is the first \<open>limit\<close> jobs that pass the filter, see
  \<open>list_jobs_take\<close>, and limit 2 gives J1 and J2, see \<open>list_jobs_five_limit_two\<close>.)
\<close>

theorem list_jobs_limit_zero_returns_a_job:
  "map job_id (list_jobs None 0 five_jobs) = [''J1''] \<and>
   int (length (list_jobs None 0 five_jobs)) > 0"
  by code_simp

end
